theory Spec2Isabelle
  imports Main "HOL-Library.Word"
begin

unbundle bit_operations_syntax

section \<open>The collision model of Project Chrono (ChCollisionModel)\<close>

subsection \<open>Machine types\<close>

text \<open>
  The header declares the family group and mask as \<open>short int\<close>, the shape count and
  the family index as \<open>int\<close>, the margins as \<open>float\<close> and the setters' arguments as
  \<open>double\<close>. The integers are words of the usual widths (16 and 32 bits), read as
  two's complement by \<open>sint\<close>. A \<open>float\<close> and a \<open>double\<close> are the 32 and 64 bits that
  hold them. The cast from double to float is a parameter of the functions that use
  it; the addition and the comparison of floats are those of IEEE 754 binary32,
  defined below on the 32 bits.
\<close>

type_synonym c_short = "16 word"
type_synonym c_int = "32 word"
type_synonym c_float = "32 word"
type_synonym c_double = "64 word"

text \<open>\<open>ChVector<>\<close>: three doubles.\<close>

type_synonym ChVector = "c_double \<times> c_double \<times> c_double"

subsection \<open>The addition and the equality of floats\<close>

text \<open>
  A \<open>float\<close> is an IEEE 754 binary32: bit 31 is the sign, bits 30 to 23 the exponent
  field, bits 22 to 0 the fraction. An exponent field of 255 makes an infinity
  (fraction zero) or a NaN (fraction not zero).
\<close>

definition is_nan :: "c_float \<Rightarrow> bool" where
  "is_nan a = (0x7F800000 < (a AND 0x7FFFFFFF))"

definition is_inf :: "c_float \<Rightarrow> bool" where
  "is_inf a = ((a AND 0x7FFFFFFF) = 0x7F800000)"

text \<open>
  Every finite float is a whole multiple of \<open>2^-149\<close>. Its magnitude in that unit:
  the fraction for an exponent field of 0 (zero and the subnormals), and otherwise the
  fraction with the hidden bit, shifted by the exponent field less one.
\<close>

definition magnitude :: "c_float \<Rightarrow> nat" where
  "magnitude a =
     (let e = unat (drop_bit 23 (a AND 0x7FFFFFFF)); f = unat (a AND 0x7FFFFF)
      in if e = 0 then f else (2 ^ 23 + f) * 2 ^ (e - 1))"

definition scaled :: "c_float \<Rightarrow> int" where
  "scaled a = (if bit a 31 then - int (magnitude a) else int (magnitude a))"

text \<open>The number of binary digits of a natural number.\<close>

fun bitlen :: "nat \<Rightarrow> nat" where
  "bitlen n = (if n = 0 then 0 else Suc (bitlen (n div 2)))"

declare bitlen.simps [simp del]

text \<open>
  The float nearest to a magnitude given in the unit \<open>2^-149\<close>, a tie going to the
  even fraction: the 24 leading digits are kept, the \<open>k\<close> digits cut off decide
  whether one is added, and a magnitude beyond the largest finite float becomes
  infinity. Exponent field and fraction of the result lie side by side in the 31 low
  bits, so that a carry out of the fraction is a step of the exponent.
\<close>

definition round_magnitude :: "nat \<Rightarrow> c_float" where
  "round_magnitude n =
     (let k = bitlen n - 24;
          q = n div 2 ^ k;
          r = n mod 2 ^ k;
          up = (2 ^ k < 2 * r \<or> (2 * r = 2 ^ k \<and> odd q))
      in word_of_nat (min (k * 2 ^ 23 + q + (if up then 1 else 0)) 0x7F800000))"

text \<open>
  The float for an exact sum \<open>s\<close> of two finite floats, in the unit \<open>2^-149\<close>: the
  rounded magnitude with the sign of the sum. An exact sum of zero is \<open>+0\<close>, except
  that \<open>-0 + -0\<close> is \<open>-0\<close>: the only sum of two negative floats that is zero.
\<close>

definition round_sum :: "bool \<Rightarrow> int \<Rightarrow> c_float" where
  "round_sum both_negative s =
     (if s = 0 then (if both_negative then 0x80000000 else 0)
      else if s < 0 then 0x80000000 OR round_magnitude (nat (- s))
      else round_magnitude (nat s))"

text \<open>
  The sum of two floats, in the default rounding (to nearest, ties to even), the one a
  C++ program runs in unless it changes it. A NaN operand, or two infinities of
  opposite sign, give a quiet NaN, whose sign and payload the processor chooses: they
  are the bits \<open>nan_bits a b\<close>. An infinity and a finite float give the infinity. Two
  finite floats give their exact sum, rounded.
\<close>

definition fadd :: "(c_float \<Rightarrow> c_float \<Rightarrow> c_float) \<Rightarrow> c_float \<Rightarrow> c_float \<Rightarrow> c_float" where
  "fadd nan_bits a b =
     (if is_nan a \<or> is_nan b \<or> (is_inf a \<and> is_inf b \<and> a \<noteq> b)
      then nan_bits a b OR 0x7FC00000
      else if is_inf a then a
      else if is_inf b then b
      else round_sum (bit a 31 \<and> bit b 31) (scaled a + scaled b))"

text \<open>
  The \<open>==\<close> of two floats: false when either is a NaN, true for two zeros of any
  sign, and otherwise the equality of the bits.
\<close>

definition feq :: "c_float \<Rightarrow> c_float \<Rightarrow> bool" where
  "feq a b =
     (\<not> is_nan a \<and> \<not> is_nan b
      \<and> (a = b \<or> ((a AND 0x7FFFFFFF) = 0 \<and> (b AND 0x7FFFFFFF) = 0)))"

subsection \<open>The data members\<close>

text \<open>
  The protected members of the class, in the order of the header. The contactable is a
  raw pointer (\<open>None\<close> is the null pointer); a shape is whatever
  \<open>std::shared_ptr<ChCollisionShape>\<close> points to, a type parameter here. A derived
  class (a collision backend) adds its own members: it is an extension of the record.
\<close>

record 'shape ChCollisionModel =
  model_envelope :: c_float
  model_safe_margin :: c_float
  mcontactable :: "nat option"
  family_group :: c_short
  family_mask :: c_short
  m_shapes :: "'shape list"

subsection \<open>Member functions defined in the header\<close>

text \<open>
  \<open>virtual bool Add2Dpath(mpath, pos, rot, thickness) { return true; }\<close>
  A member function that may change the object returns its result and the object.
\<close>

definition Add2Dpath ::
  "'path \<Rightarrow> ChVector \<Rightarrow> 'rot \<Rightarrow> c_double \<Rightarrow> ('shape, 'm) ChCollisionModel_scheme
    \<Rightarrow> bool \<times> ('shape, 'm) ChCollisionModel_scheme" where
  "Add2Dpath mpath pos rot thickness this = (True, this)"

text \<open>
  \<open>virtual bool AddPoint(radius, pos) { this->AddSphere(radius, pos); return true; }\<close>
  \<open>AddSphere\<close> is pure virtual: the backend's implementation is the first argument.
  Its boolean result is dropped, the object it leaves is kept.
\<close>

definition AddPoint ::
  "(c_double \<Rightarrow> ChVector \<Rightarrow> ('shape, 'm) ChCollisionModel_scheme
      \<Rightarrow> bool \<times> ('shape, 'm) ChCollisionModel_scheme)
    \<Rightarrow> c_double \<Rightarrow> ChVector \<Rightarrow> ('shape, 'm) ChCollisionModel_scheme
    \<Rightarrow> bool \<times> ('shape, 'm) ChCollisionModel_scheme" where
  "AddPoint AddSphere radius pos this =
     (case AddSphere radius pos this of (_, this') \<Rightarrow> (True, this'))"

text \<open>
  A backend without spheres, as the header's contract for the geometry functions
  describes it ("Return value is true if the child class implements the corresponding
  type of geometry. If created, the shape must be added to the model's list of
  shapes"): it returns false and creates nothing.
\<close>

definition AddSphere_unsupported ::
  "c_double \<Rightarrow> ChVector \<Rightarrow> ('shape, 'm) ChCollisionModel_scheme
    \<Rightarrow> bool \<times> ('shape, 'm) ChCollisionModel_scheme" where
  "AddSphere_unsupported radius pos this = (False, this)"

text \<open>\<open>virtual short int GetFamilyGroup() const { return family_group; }\<close>\<close>

definition GetFamilyGroup :: "('shape, 'm) ChCollisionModel_scheme \<Rightarrow> c_short" where
  "GetFamilyGroup this = family_group this"

text \<open>\<open>virtual short int GetFamilyMask() const { return family_mask; }\<close>\<close>

definition GetFamilyMask :: "('shape, 'm) ChCollisionModel_scheme \<Rightarrow> c_short" where
  "GetFamilyMask this = family_mask this"

text \<open>
  \<open>virtual void SetSafeMargin(double amargin) { model_safe_margin = (float)amargin; }\<close>
  The cast \<open>(float)\<close> is the parameter \<open>to_float\<close>.
\<close>

definition SetSafeMargin ::
  "(c_double \<Rightarrow> c_float) \<Rightarrow> c_double \<Rightarrow> ('shape, 'm) ChCollisionModel_scheme
    \<Rightarrow> ('shape, 'm) ChCollisionModel_scheme" where
  "SetSafeMargin to_float amargin this = this\<lparr>model_safe_margin := to_float amargin\<rparr>"

text \<open>\<open>virtual float GetSafeMargin() { return model_safe_margin; }\<close>\<close>

definition GetSafeMargin :: "('shape, 'm) ChCollisionModel_scheme \<Rightarrow> c_float" where
  "GetSafeMargin this = model_safe_margin this"

text \<open>
  \<open>virtual void SetEnvelope(double amargin) { model_envelope = (float)amargin; }\<close>
\<close>

definition SetEnvelope ::
  "(c_double \<Rightarrow> c_float) \<Rightarrow> c_double \<Rightarrow> ('shape, 'm) ChCollisionModel_scheme
    \<Rightarrow> ('shape, 'm) ChCollisionModel_scheme" where
  "SetEnvelope to_float amargin this = this\<lparr>model_envelope := to_float amargin\<rparr>"

text \<open>\<open>virtual float GetEnvelope() { return model_envelope; }\<close>\<close>

definition GetEnvelope :: "('shape, 'm) ChCollisionModel_scheme \<Rightarrow> c_float" where
  "GetEnvelope this = model_envelope this"

text \<open>
  \<open>virtual float GetSuggestedFullMargin() { return model_envelope + model_safe_margin; }\<close>
  The operands are in the order of the source.
\<close>

definition GetSuggestedFullMargin ::
  "(c_float \<Rightarrow> c_float \<Rightarrow> c_float) \<Rightarrow> ('shape, 'm) ChCollisionModel_scheme \<Rightarrow> c_float" where
  "GetSuggestedFullMargin nan_bits this =
     fadd nan_bits (model_envelope this) (model_safe_margin this)"

text \<open>
  \<open>int GetNumShapes() const { return (int)m_shapes.size(); }\<close>
  The size is cut to the 32 bits of an \<open>int\<close>.
\<close>

definition GetNumShapes :: "('shape, 'm) ChCollisionModel_scheme \<Rightarrow> c_int" where
  "GetNumShapes this = word_of_nat (length (m_shapes this))"

text \<open>
  \<open>std::shared_ptr<ChCollisionShape> GetShape(int index) { return m_shapes[index]; }\<close>
  \<open>operator[]\<close> of a vector checks nothing: an index outside the vector (a negative
  \<open>int\<close> becomes a huge \<open>size_t\<close>) is undefined behaviour, the value \<open>None\<close> here.
\<close>

definition GetShape :: "c_int \<Rightarrow> ('shape, 'm) ChCollisionModel_scheme \<Rightarrow> 'shape option" where
  "GetShape index this =
     (if 0 \<le> sint index \<and> nat (sint index) < length (m_shapes this)
      then Some (m_shapes this ! nat (sint index))
      else None)"

subsection \<open>Member functions declared in the header and defined elsewhere\<close>

text \<open>
  Modelled from the spec: the constructor \<open>ChCollisionModel()\<close>, whose body is not in
  the header. "Default at construction: family group = family 0, family mask = all bits
  set (collides with everything)"; the envelope and the margin are the process-wide
  defaults "consulted by the model constructor", given here as the two floats they
  become. No contactable is attached and no shape is registered yet.
\<close>

definition ChCollisionModel_new :: "c_float \<Rightarrow> c_float \<Rightarrow> 'shape ChCollisionModel" where
  "ChCollisionModel_new default_envelope default_margin =
     \<lparr> model_envelope = default_envelope,
       model_safe_margin = default_margin,
       mcontactable = None,
       family_group = 1,
       family_mask = 0xFFFF,
       m_shapes = [] \<rparr>"

text \<open>The population count of a 16-bit value: the number of its set bits.\<close>

definition popcount :: "c_short \<Rightarrow> nat" where
  "popcount w = length (filter (bit w) [0..<16])"



text \<open>
  Modelled from the spec: the three functions on single bits of the mask, declared in
  the header and defined elsewhere. "\<open>SetFamilyMaskNoCollisionWithFamily(n)\<close> clears
  bit n of the mask; \<open>SetFamilyMaskDoCollisionWithFamily(n)\<close> sets bit n";
  \<open>GetFamilyMaskDoesCollisionWithFamily(n)\<close> tells whether bit n of the mask is set.
\<close>

definition SetFamilyMaskNoCollisionWithFamily ::
  "int \<Rightarrow> ('shape, 'm) ChCollisionModel_scheme \<Rightarrow> ('shape, 'm) ChCollisionModel_scheme" where
  "SetFamilyMaskNoCollisionWithFamily mfamily this =
     this\<lparr>family_mask := unset_bit (nat mfamily) (family_mask this)\<rparr>"

definition SetFamilyMaskDoCollisionWithFamily ::
  "int \<Rightarrow> ('shape, 'm) ChCollisionModel_scheme \<Rightarrow> ('shape, 'm) ChCollisionModel_scheme" where
  "SetFamilyMaskDoCollisionWithFamily mfamily this =
     this\<lparr>family_mask := set_bit (nat mfamily) (family_mask this)\<rparr>"

definition GetFamilyMaskDoesCollisionWithFamily ::
  "int \<Rightarrow> ('shape, 'm) ChCollisionModel_scheme \<Rightarrow> bool" where
  "GetFamilyMaskDoesCollisionWithFamily mfamily this = bit (family_mask this) (nat mfamily)"

subsection \<open>The family gate\<close>

text \<open>
  Modelled from the spec: the gate that decides whether two models may generate
  contacts; it belongs to the contact pipeline, which reads the two getters above.
  "Two models A and B may generate contacts only if
  \<open>(A.group & B.mask) != 0 AND (B.group & A.mask) != 0\<close>". The operands of \<open>&\<close> are
  promoted to \<open>int\<close> with their sign, which leaves the test against zero as it is on
  16 bits.
\<close>

definition CanCollide ::
  "('shape, 'm) ChCollisionModel_scheme \<Rightarrow> ('shape2, 'm2) ChCollisionModel_scheme \<Rightarrow> bool" where
  "CanCollide X Y =
     ((GetFamilyGroup X AND GetFamilyMask Y) \<noteq> 0 \<and> (GetFamilyGroup Y AND GetFamilyMask X) \<noteq> 0)"

subsection \<open>Sequences of calls of the family setters\<close>





section \<open>Properties\<close>

subsection \<open>The family gate\<close>

text \<open>
  Claim C1. The gate is symmetric: for all models A and B (of any two backends),
  \<open>CanCollide A B\<close> and \<open>CanCollide B A\<close> are the same truth value.
\<close>

theorem CanCollide_symmetric: "CanCollide A B = CanCollide B A"
  unfolding CanCollide_def by (rule conj_commute)

subsection \<open>Geometry functions with a body in the header\<close>

text \<open>
  Claim C4. For every radius and position, and whatever the backend's \<open>AddSphere\<close>
  does, \<open>AddPoint\<close> leaves the object exactly as \<open>AddSphere\<close> with the same arguments
  leaves it: the same list of shapes, hence the same number of shapes, and the same
  state of the backend.
\<close>

theorem AddPoint_same_effect_as_AddSphere:
  "snd (AddPoint AddSphere radius pos this) = snd (AddSphere radius pos this)
   \<and> m_shapes (snd (AddPoint AddSphere radius pos this))
       = m_shapes (snd (AddSphere radius pos this))
   \<and> GetNumShapes (snd (AddPoint AddSphere radius pos this))
       = GetNumShapes (snd (AddSphere radius pos this))"
  by (simp add: AddPoint_def split: prod.split)

text \<open>
  Claim C5. For every path, position, rotation and thickness, the \<open>Add2Dpath\<close> of the
  base class returns true and leaves the object as it was: the list of shapes and the
  number of shapes are unchanged.
\<close>

theorem Add2Dpath_true_and_no_shape:
  "fst (Add2Dpath mpath pos rot thickness this) = True
   \<and> snd (Add2Dpath mpath pos rot thickness this) = this
   \<and> m_shapes (snd (Add2Dpath mpath pos rot thickness this)) = m_shapes this
   \<and> GetNumShapes (snd (Add2Dpath mpath pos rot thickness this)) = GetNumShapes this"
  by (simp add: Add2Dpath_def)

text \<open>
  Claim C9. \<open>AddPoint\<close> returns true whatever \<open>AddSphere\<close> returns; on a backend
  whose \<open>AddSphere\<close> returns false and adds no shape, \<open>AddPoint\<close> returns true and
  the object is unchanged.
\<close>

theorem AddPoint_always_true:
  "fst (AddPoint AddSphere radius pos this) = True
   \<and> fst (AddSphere_unsupported radius pos this) = False
   \<and> AddPoint AddSphere_unsupported radius pos this = (True, this)"
  by (simp add: AddPoint_def AddSphere_unsupported_def split: prod.split)

subsection \<open>Defaults of a new model\<close>

lemma bit_all_ones_16: "bit (0xFFFF :: 16 word) k = (k < 16)"
proof -
  have "(0xFFFF :: 16 word) = - 1"
    by simp
  then show ?thesis
    by (simp only: bit_minus_1_iff possible_bit_word) simp
qed

text \<open>
  Claim C3. A new model, before any setter is called, has the mask \<open>0xFFFF\<close>: the
  mask admits each of the 16 families 0 to 15 (and, a 16-bit value, no other), and read
  as a signed \<open>short int\<close> it is -1. Its group is 1, the value whose only set bit is
  bit 0: the model belongs to family 0.
\<close>

theorem new_model_family_defaults:
  "GetFamilyMask (ChCollisionModel_new default_envelope default_margin) = 0xFFFF
   \<and> (\<forall>k. GetFamilyMaskDoesCollisionWithFamily (int k)
          (ChCollisionModel_new default_envelope default_margin) = (k < 16))
   \<and> sint (GetFamilyMask (ChCollisionModel_new default_envelope default_margin)) = - 1
   \<and> GetFamilyGroup (ChCollisionModel_new default_envelope default_margin) = 1
   \<and> (\<forall>k. bit (GetFamilyGroup (ChCollisionModel_new default_envelope default_margin)) k
          = (k = 0))
   \<and> popcount (GetFamilyGroup (ChCollisionModel_new default_envelope default_margin)) = 1"
proof -
  have mask: "family_mask (ChCollisionModel_new default_envelope default_margin) = 0xFFFF"
    and grp: "family_group (ChCollisionModel_new default_envelope default_margin) = 1"
    by (simp_all add: ChCollisionModel_new_def)
  have "bit (0xFFFF :: 16 word) (nat (int k)) = (k < 16)" for k
    by (simp only: bit_all_ones_16 nat_int)
  moreover have "sint (0xFFFF :: 16 word) = - 1"
    by simp
  moreover have "bit (1 :: 16 word) k = (k = 0)" for k
    by (simp add: bit_1_iff)
  moreover have "popcount 1 = 1"
    by code_simp
  ultimately show ?thesis
    unfolding GetFamilyMask_def GetFamilyGroup_def GetFamilyMaskDoesCollisionWithFamily_def
      mask grp
    by (intro conjI allI) (rule refl | assumption)+
qed

subsection \<open>The family group stays one-hot\<close>










subsection \<open>Single bits of the family mask\<close>

text \<open>
  Claim C7. For every model and every family k from 0 to 15: after
  \<open>SetFamilyMaskNoCollisionWithFamily(k)\<close> the mask does not admit family k; after
  \<open>SetFamilyMaskDoCollisionWithFamily(k)\<close> on top of that it does again; and each of
  the two setters leaves every bit of the mask other than bit k as it was.
\<close>

theorem family_mask_bit_k:
  assumes "0 \<le> k" and "k \<le> 15"
  shows "\<not> GetFamilyMaskDoesCollisionWithFamily k (SetFamilyMaskNoCollisionWithFamily k this)
    \<and> GetFamilyMaskDoesCollisionWithFamily k
        (SetFamilyMaskDoCollisionWithFamily k (SetFamilyMaskNoCollisionWithFamily k this))
    \<and> (\<forall>j. j \<noteq> nat k \<longrightarrow>
          bit (GetFamilyMask (SetFamilyMaskNoCollisionWithFamily k this)) j
            = bit (GetFamilyMask this) j)
    \<and> (\<forall>j. j \<noteq> nat k \<longrightarrow>
          bit (GetFamilyMask (SetFamilyMaskDoCollisionWithFamily k this)) j
            = bit (GetFamilyMask this) j)"
proof -
  from assms have "nat k < 16"
    by auto
  then show ?thesis
    by (auto simp: GetFamilyMaskDoesCollisionWithFamily_def GetFamilyMask_def
        SetFamilyMaskNoCollisionWithFamily_def SetFamilyMaskDoCollisionWithFamily_def
        bit_set_bit_iff bit_unset_bit_iff)
qed

theorem family_mask_bit_k_witness:
  "(0 :: int) \<le> 3 \<and> (3 :: int) \<le> 15
   \<and> \<not> GetFamilyMaskDoesCollisionWithFamily 3
        (SetFamilyMaskNoCollisionWithFamily 3 (ChCollisionModel_new 0 0 :: nat ChCollisionModel))
   \<and> GetFamilyMaskDoesCollisionWithFamily 3
        (SetFamilyMaskDoCollisionWithFamily 3
          (SetFamilyMaskNoCollisionWithFamily 3 (ChCollisionModel_new 0 0 :: nat ChCollisionModel)))
   \<and> GetFamilyMask
        (SetFamilyMaskNoCollisionWithFamily 3 (ChCollisionModel_new 0 0 :: nat ChCollisionModel))
       = 0xFFF7"
proof -
  have h1: "(0 :: int) \<le> 3" and h2: "(3 :: int) \<le> 15"
    by simp_all
  have v: "GetFamilyMask
        (SetFamilyMaskNoCollisionWithFamily 3 (ChCollisionModel_new 0 0 :: nat ChCollisionModel))
       = 0xFFF7"
    by code_simp
  note t = family_mask_bit_k [OF h1 h2, of "ChCollisionModel_new 0 0 :: nat ChCollisionModel"]
  from h1 h2 v t [THEN conjunct1] t [THEN conjunct2, THEN conjunct1]
  show ?thesis
    by (intro conjI)
qed

subsection \<open>Margins\<close>

lemma is_nan_quiet: "is_nan (w OR 0x7FC00000)"
proof -
  have "(w OR 0x7FC00000) AND 0x7FFFFFFF = (w AND 0x7FFFFFFF) OR 0x7FC00000"
    by (simp add: word_ao_dist)
  moreover have "(0x7FC00000 :: 32 word) \<le> 0x7FC00000 OR (w AND 0x7FFFFFFF)"
    by (rule le_word_or2)
  then have "(0x7FC00000 :: 32 word) \<le> (w AND 0x7FFFFFFF) OR 0x7FC00000"
    by (simp only: or.commute)
  moreover have "(0x7F800000 :: 32 word) < 0x7FC00000"
    by simp
  ultimately show ?thesis
    unfolding is_nan_def by (simp only: less_le_trans)
qed

lemma round_magnitude_le: "round_magnitude n \<le> 0x7F800000"
proof -
  have "unat (word_of_nat (min m 0x7F800000) :: 32 word) \<le> 0x7F800000" for m :: nat
    by (simp add: unat_of_nat min_def)
  then show ?thesis
    unfolding round_magnitude_def Let_def by (simp only: word_le_nat_alt) simp
qed

lemma not_nan_le: "w \<le> 0x7F800000 \<Longrightarrow> \<not> is_nan w \<and> \<not> is_nan (0x80000000 OR w)"
proof -
  assume w: "w \<le> 0x7F800000"
  have a: "w AND 0x7FFFFFFF \<le> w"
    by (rule word_and_le2)
  have "(0x80000000 OR w) AND 0x7FFFFFFF = w AND 0x7FFFFFFF"
    by (simp add: word_ao_dist)
  with a w show ?thesis
    unfolding is_nan_def by auto
qed

lemma is_inf_not_nan: "is_inf a \<Longrightarrow> \<not> is_nan a"
  by (simp add: is_inf_def is_nan_def)

lemma round_sum_not_nan: "\<not> is_nan (round_sum z s)"
proof -
  have "\<not> is_nan 0" "\<not> is_nan 0x80000000"
    by (simp_all add: is_nan_def)
  moreover have "\<not> is_nan (round_magnitude n)" "\<not> is_nan (0x80000000 OR round_magnitude n)" for n
    using not_nan_le [OF round_magnitude_le [of n]] by simp_all
  ultimately show ?thesis
    unfolding round_sum_def by (simp only: split: if_split) blast
qed

lemma fadd_nan_case:
  "is_nan a \<or> is_nan b \<or> (is_inf a \<and> is_inf b \<and> a \<noteq> b)
    \<Longrightarrow> fadd nan_bits a b = nan_bits a b OR 0x7FC00000"
  unfolding fadd_def by (rule if_P)

lemma fadd_number_case:
  "\<not> (is_nan a \<or> is_nan b \<or> (is_inf a \<and> is_inf b \<and> a \<noteq> b))
    \<Longrightarrow> fadd nan_bits a b =
      (if is_inf a then a else if is_inf b then b
       else round_sum (bit a 31 \<and> bit b 31) (scaled a + scaled b))"
  unfolding fadd_def by (rule if_not_P)

lemma fadd_nan_iff:
  "is_nan (fadd nan_bits a b) = (is_nan a \<or> is_nan b \<or> (is_inf a \<and> is_inf b \<and> a \<noteq> b))"
proof (cases "is_nan a \<or> is_nan b \<or> (is_inf a \<and> is_inf b \<and> a \<noteq> b)")
  case True
  have "is_nan (fadd nan_bits a b)"
    unfolding fadd_nan_case [OF True] by (rule is_nan_quiet)
  with True show ?thesis
    by simp
next
  case False
  then have na: "\<not> is_nan a" and nb: "\<not> is_nan b"
    by blast+
  have "\<not> is_nan (fadd nan_bits a b)"
  proof (cases "is_inf a")
    case True
    with na show ?thesis
      unfolding fadd_number_case [OF False] by simp
  next
    case ia: False
    show ?thesis
    proof (cases "is_inf b")
      case True
      with ia nb show ?thesis
        unfolding fadd_number_case [OF False] by simp
    next
      case ib: False
      with ia show ?thesis
        unfolding fadd_number_case [OF False] by (simp add: round_sum_not_nan)
    qed
  qed
  with False show ?thesis
    by blast
qed

lemma fadd_commute:
  assumes "\<not> is_nan (fadd nan_bits a b)"
  shows "fadd nan_bits a b = fadd nan_bits b a"
proof -
  have n: "\<not> (is_nan a \<or> is_nan b \<or> (is_inf a \<and> is_inf b \<and> a \<noteq> b))"
    using assms unfolding fadd_nan_iff .
  then have n': "\<not> (is_nan b \<or> is_nan a \<or> (is_inf b \<and> is_inf a \<and> b \<noteq> a))"
    by blast
  have s: "round_sum (bit b 31 \<and> bit a 31) (scaled b + scaled a)
      = round_sum (bit a 31 \<and> bit b 31) (scaled a + scaled b)"
    by (simp only: conj_commute [of "bit b 31"] add.commute [of "scaled b"])
  show ?thesis
  proof (cases "is_inf a")
    case True
    show ?thesis
    proof (cases "is_inf b")
      case ib: True
      with True n have "a = b"
        by blast
      then show ?thesis
        by simp
    next
      case ib: False
      with True show ?thesis
        unfolding fadd_number_case [OF n] fadd_number_case [OF n'] by simp
    qed
  next
    case False
    then show ?thesis
      unfolding fadd_number_case [OF n] fadd_number_case [OF n'] s by simp
  qed
qed

lemma fadd_nan_commute: "is_nan (fadd nan_bits a b) = is_nan (fadd nan_bits b a)"
  unfolding fadd_nan_iff by blast

lemma feq_fadd_swap:
  "feq (fadd nan_bits b a) (fadd nan_bits a b) = (\<not> is_nan (fadd nan_bits a b))"
proof (cases "is_nan (fadd nan_bits a b)")
  case True
  then show ?thesis
    unfolding feq_def by simp
next
  case False
  from fadd_commute [OF False] have "fadd nan_bits b a = fadd nan_bits a b"
    by (rule sym)
  with False show ?thesis
    unfolding feq_def by simp
qed

text \<open>
  Claim C6, as stated, fails: with an envelope of \<open>+infinity\<close> and a safe margin of
  \<open>-infinity\<close>, two floats that \<open>SetEnvelope\<close> and \<open>SetSafeMargin\<close> store like any
  other, both sums are NaN, and \<open>==\<close> is false on a NaN. The bits of the NaN play no
  part in it.
\<close>

theorem GetSuggestedFullMargin_nan_counterexample:
  "\<not> feq
      (GetSuggestedFullMargin (\<lambda>a b. 0)
        ((ChCollisionModel_new 0 0 :: nat ChCollisionModel)
          \<lparr>model_envelope := 0x7F800000, model_safe_margin := 0xFF800000\<rparr>))
      (fadd (\<lambda>a b. 0)
        (GetSafeMargin ((ChCollisionModel_new 0 0 :: nat ChCollisionModel)
          \<lparr>model_envelope := 0x7F800000, model_safe_margin := 0xFF800000\<rparr>))
        (GetEnvelope ((ChCollisionModel_new 0 0 :: nat ChCollisionModel)
          \<lparr>model_envelope := 0x7F800000, model_safe_margin := 0xFF800000\<rparr>)))"
  by (simp add: feq_def fadd_def is_nan_def is_inf_def GetSuggestedFullMargin_def
      GetSafeMargin_def GetEnvelope_def)

text \<open>
  Claim C6, amended. For every model whose safe margin and envelope are not NaN and
  are not two infinities of opposite sign (so for all finite values, zero included),
  \<open>GetSuggestedFullMargin() == GetSafeMargin() + GetEnvelope()\<close>; in the other cases
  the sum is NaN and the comparison is false. The source adds the margin to the
  envelope and the claim the envelope to the margin; whatever bits the processor gives
  a NaN, the two sums are the same float when they are not NaN.
\<close>

theorem GetSuggestedFullMargin_is_sum:
  "feq (GetSuggestedFullMargin nan_bits this)
       (fadd nan_bits (GetSafeMargin this) (GetEnvelope this))
   = (\<not> is_nan (GetSafeMargin this) \<and> \<not> is_nan (GetEnvelope this)
      \<and> \<not> (is_inf (GetSafeMargin this) \<and> is_inf (GetEnvelope this)
            \<and> GetSafeMargin this \<noteq> GetEnvelope this))"
  unfolding GetSuggestedFullMargin_def GetSafeMargin_def GetEnvelope_def feq_fadd_swap
    fadd_nan_iff
  by blast

theorem GetSuggestedFullMargin_is_sum_witness:
  "feq (GetSuggestedFullMargin (\<lambda>a b. 0)
          (ChCollisionModel_new 0x3F800000 0x40000000 :: nat ChCollisionModel))
       (fadd (\<lambda>a b. 0)
          (GetSafeMargin (ChCollisionModel_new 0x3F800000 0x40000000 :: nat ChCollisionModel))
          (GetEnvelope (ChCollisionModel_new 0x3F800000 0x40000000 :: nat ChCollisionModel)))
   \<and> GetSuggestedFullMargin (\<lambda>a b. 0)
          (ChCollisionModel_new 0x3F800000 0x40000000 :: nat ChCollisionModel) = 0x40400000
   \<and> feq (GetSuggestedFullMargin (\<lambda>a b. 0) (ChCollisionModel_new 0 0 :: nat ChCollisionModel))
       (fadd (\<lambda>a b. 0)
          (GetSafeMargin (ChCollisionModel_new 0 0 :: nat ChCollisionModel))
          (GetEnvelope (ChCollisionModel_new 0 0 :: nat ChCollisionModel)))"
proof -
  have v: "GetSuggestedFullMargin (\<lambda>a b. 0)
          (ChCollisionModel_new 0x3F800000 0x40000000 :: nat ChCollisionModel) = 0x40400000"
    by (simp add: GetSuggestedFullMargin_def ChCollisionModel_new_def fadd_def is_nan_def
        is_inf_def round_sum_def scaled_def magnitude_def round_magnitude_def bitlen.simps
        Let_def)
  have a: "feq (GetSuggestedFullMargin (\<lambda>a b. 0)
          (ChCollisionModel_new 0x3F800000 0x40000000 :: nat ChCollisionModel))
       (fadd (\<lambda>a b. 0)
          (GetSafeMargin (ChCollisionModel_new 0x3F800000 0x40000000 :: nat ChCollisionModel))
          (GetEnvelope (ChCollisionModel_new 0x3F800000 0x40000000 :: nat ChCollisionModel)))"
    unfolding GetSuggestedFullMargin_is_sum
    by (simp add: GetSafeMargin_def GetEnvelope_def ChCollisionModel_new_def is_nan_def is_inf_def)
  have b: "feq (GetSuggestedFullMargin (\<lambda>a b. 0) (ChCollisionModel_new 0 0 :: nat ChCollisionModel))
       (fadd (\<lambda>a b. 0)
          (GetSafeMargin (ChCollisionModel_new 0 0 :: nat ChCollisionModel))
          (GetEnvelope (ChCollisionModel_new 0 0 :: nat ChCollisionModel)))"
    unfolding GetSuggestedFullMargin_is_sum
    by (simp add: GetSafeMargin_def GetEnvelope_def ChCollisionModel_new_def is_nan_def is_inf_def)
  from a v b show ?thesis
    by (intro conjI)
qed

lemma range_32_in_64_proper: "range (f :: 32 word \<Rightarrow> 64 word) \<noteq> UNIV"
proof
  assume "range f = UNIV"
  then have "card (UNIV :: 64 word set) = card (range f)"
    by simp
  also have "\<dots> \<le> card (UNIV :: 32 word set)"
    by (rule card_image_le) simp
  finally show False
    by (simp add: card_word)
qed

lemma no_roundtrip_64_32_64:
  "\<exists>d. (to_double :: c_float \<Rightarrow> c_double) ((to_float :: c_double \<Rightarrow> c_float) d) \<noteq> d"
proof -
  obtain d where "d \<notin> range to_double"
    using range_32_in_64_proper [of to_double] by blast
  then have "to_double (to_float d) \<noteq> d"
    by (metis rangeI)
  then show ?thesis ..
qed

text \<open>
  Claim C10. \<open>SetSafeMargin\<close> and \<open>SetEnvelope\<close> store the cast of their double
  argument to float, and \<open>GetSafeMargin\<close> and \<open>GetEnvelope\<close> return that float: after
  \<open>SetSafeMargin(d)\<close> the getter returns \<open>(float)d\<close>, and likewise for the envelope.
  The pair does not give every double back: whatever the cast \<open>to_float\<close> is, and
  whatever conversion \<open>to_double\<close> reads the float as a double again, some double
  comes back changed, since a float has 32 bits for the 64 of a double.
\<close>

theorem margin_setters_narrow_to_float:
  "GetSafeMargin (SetSafeMargin to_float d this) = to_float d
   \<and> GetEnvelope (SetEnvelope to_float d this) = to_float d
   \<and> (\<exists>d'. to_double (GetSafeMargin (SetSafeMargin to_float d' this)) \<noteq> d')
   \<and> (\<exists>d'. to_double (GetEnvelope (SetEnvelope to_float d' this)) \<noteq> d')"
  using no_roundtrip_64_32_64 [of to_double to_float]
  by (simp add: GetSafeMargin_def SetSafeMargin_def GetEnvelope_def SetEnvelope_def)

subsection \<open>Reading the shape registry\<close>

lemma sint_word_of_nat_le: "sint (word_of_nat n :: 32 word) \<le> int n"
  by (simp add: signed_of_nat signed_take_bit_int_less_eq_self_iff)

text \<open>
  Claim C8. For every model and every index with \<open>0 <= index < GetNumShapes()\<close>
  (compared as \<open>int\<close>s, as the caller does), \<open>GetShape(index)\<close> returns the shape at
  that position of the list of shapes, and the read is inside the vector: the result is
  never \<open>None\<close>. For any index, the read leaves the vector (undefined behaviour in the
  source, \<open>None\<close> here) exactly when the index is negative or at least the length of
  the list; nothing in \<open>GetShape\<close> recovers from it.
\<close>

theorem GetShape_in_range:
  assumes "0 \<le> sint index" and "sint index < sint (GetNumShapes this)"
  shows "GetShape index this = Some (m_shapes this ! nat (sint index))
    \<and> GetShape index this \<noteq> None
    \<and> nat (sint index) < length (m_shapes this)
    \<and> ((GetShape index' this = None)
          = (sint index' < 0 \<or> length (m_shapes this) \<le> nat (sint index')))"
proof -
  have "sint (GetNumShapes this) \<le> int (length (m_shapes this))"
    unfolding GetNumShapes_def by (rule sint_word_of_nat_le)
  with assms show ?thesis
    by (auto simp: GetShape_def)
qed

theorem GetShape_in_range_witness:
  "0 \<le> sint (1 :: c_int)
   \<and> sint (1 :: c_int)
       < sint (GetNumShapes ((ChCollisionModel_new 0 0)\<lparr>m_shapes := [10, 20, 30 :: nat]\<rparr>))
   \<and> GetShape 1 ((ChCollisionModel_new 0 0)\<lparr>m_shapes := [10, 20, 30 :: nat]\<rparr>) = Some 20
   \<and> GetShape 3 ((ChCollisionModel_new 0 0)\<lparr>m_shapes := [10, 20, 30 :: nat]\<rparr>) = None
   \<and> GetShape (- 1) ((ChCollisionModel_new 0 0)\<lparr>m_shapes := [10, 20, 30 :: nat]\<rparr>) = None"
proof -
  let ?m = "(ChCollisionModel_new 0 0)\<lparr>m_shapes := [10, 20, 30 :: nat]\<rparr>"
  have h1: "0 \<le> sint (1 :: c_int)"
    by simp
  have h2: "sint (1 :: c_int) < sint (GetNumShapes ?m)"
    by (simp add: GetNumShapes_def)
  have v: "GetShape 3 ?m = None" "GetShape (- 1) ?m = None"
    by (simp_all add: GetShape_def)
  from GetShape_in_range [OF h1 h2, THEN conjunct1]
  have "GetShape 1 ?m = Some 20"
    by simp
  with h1 h2 v show ?thesis
    by (intro conjI)
qed

end
